theory Spec2Isabelle
  imports Complex_Main
begin

section \<open>Values, errors and arithmetic\<close>

text \<open>
  The fitness-tracker module \<^verbatim>\<open>homework.py\<close> computes with Python numbers. The fields
  of a training are bound to whatever the caller passes (the sample data are ints, the
  constants are floats), and \<^verbatim>\<open>/\<close> is true division. Numbers are modelled as exact
  rationals: the rounding, the overflow and the special values of IEEE doubles are
  outside the model. What the model keeps of Python's arithmetic is the order of the
  operations and the \<^verbatim>\<open>ZeroDivisionError\<close> that \<^verbatim>\<open>/\<close> raises on a zero divisor.
\<close>

type_synonym num = rat

datatype py_error =
    ZeroDivisionError
  | TypeError
  | ValueError "string list"  \<comment> \<open>the exception's \<^verbatim>\<open>args\<close>\<close>

text \<open>
  A value returned by \<^verbatim>\<open>get_spent_calories\<close>: a number, or the exception class
  \<^verbatim>\<open>NotImplementedError\<close> itself, handed back as an ordinary object.
\<close>

datatype py_value = Number num | NotImplementedError_class

definition truediv :: "num \<Rightarrow> num \<Rightarrow> py_error + num" where
  "truediv a b = (if b = 0 then Inl ZeroDivisionError else Inr (a / b))"

section \<open>The training classes\<close>

text \<open>
  The dataclass \<^verbatim>\<open>Training\<close> declares \<^verbatim>\<open>action\<close>, \<^verbatim>\<open>duration\<close>, \<^verbatim>\<open>weight\<close>;
  \<^verbatim>\<open>Running\<close> adds nothing, \<^verbatim>\<open>SportsWalking\<close> adds \<^verbatim>\<open>height\<close>, \<^verbatim>\<open>Swimming\<close> adds
  \<^verbatim>\<open>length_pool\<close> and \<^verbatim>\<open>count_pool\<close>. A dataclass's generated constructor takes the
  inherited fields first, then its own, in declaration order. An object is its class
  (the constructor) together with its fields.
\<close>

datatype training =
    Training (action: num) (duration: num) (weight: num)
  | Running (action: num) (duration: num) (weight: num)
  | SportsWalking (action: num) (duration: num) (weight: num) (height: num)
  | Swimming (action: num) (duration: num) (weight: num) (length_pool: num) (count_pool: num)

definition M_IN_KM :: num where
  "M_IN_KM = 1000"

definition MIN_IN_H :: num where
  "MIN_IN_H = 60"

text \<open>
  \<^verbatim>\<open>self.LEN_STEP\<close> is looked up on the object's class: \<^verbatim>\<open>Swimming\<close> overrides the
  class attribute, the other classes inherit it from \<^verbatim>\<open>Training\<close>.
\<close>

fun LEN_STEP :: "training \<Rightarrow> num" where
  "LEN_STEP (Swimming a d w lp cp) = 1.38"
| "LEN_STEP t = 0.65"

definition get_distance :: "training \<Rightarrow> py_error + num" where
  "get_distance self = truediv (action self * LEN_STEP self) M_IN_KM"

text \<open>
  \<^verbatim>\<open>Training.get_mean_speed\<close> divides the distance by the duration; \<^verbatim>\<open>Swimming\<close>
  overrides it with the pool length times the pool count.
\<close>

fun get_mean_speed :: "training \<Rightarrow> py_error + num" where
  "get_mean_speed (Swimming a d w lp cp) =
     (case truediv (lp * cp) M_IN_KM of
        Inl e \<Rightarrow> Inl e
      | Inr km \<Rightarrow> truediv km d)"
| "get_mean_speed self =
     (case get_distance self of
        Inl e \<Rightarrow> Inl e
      | Inr distance \<Rightarrow> truediv distance (duration self))"

text \<open>
  The calorie coefficients are class attributes of \<^verbatim>\<open>Running\<close>, \<^verbatim>\<open>SportsWalking\<close>
  and \<^verbatim>\<open>Swimming\<close>. Two names are declared by both \<^verbatim>\<open>Running\<close> and \<^verbatim>\<open>Swimming\<close>
  with different values; they carry the class as a prefix here.
\<close>

definition Running_CALORIES_MEAN_SPEED_MULTIPLIER :: num where
  "Running_CALORIES_MEAN_SPEED_MULTIPLIER = 18"

definition Running_CALORIES_MEAN_SPEED_SHIFT :: num where
  "Running_CALORIES_MEAN_SPEED_SHIFT = 1.79"

definition CALORIES_WEIGHT_MULTIPLIER :: num where
  "CALORIES_WEIGHT_MULTIPLIER = 0.035"

definition CALORIES_SPEED_HEIGHT_MULTIPLIER :: num where
  "CALORIES_SPEED_HEIGHT_MULTIPLIER = 0.029"

definition KMH_IN_MSEC :: num where
  "KMH_IN_MSEC = 0.278"

definition CM_IN_M :: num where
  "CM_IN_M = 100"

definition Swimming_CALORIES_MEAN_SPEED_SHIFT :: num where
  "Swimming_CALORIES_MEAN_SPEED_SHIFT = 1.1"

definition Swimming_CALORIES_MEAN_SPEED_MULTIPLIER :: num where
  "Swimming_CALORIES_MEAN_SPEED_MULTIPLIER = 2"

text \<open>
  \<^verbatim>\<open>get_spent_calories\<close>, one equation per class. The base class executes
  \<^verbatim>\<open>return NotImplementedError\<close>: the call returns the exception class. The operands
  are evaluated left to right, so in \<^verbatim>\<open>SportsWalking\<close> the mean speed is computed
  (and may raise) before the height is divided.
\<close>

fun get_spent_calories :: "training \<Rightarrow> py_error + py_value" where
  "get_spent_calories (Training a d w) = Inr NotImplementedError_class"
| "get_spent_calories (Running a d w) =
     (case get_mean_speed (Running a d w) of
        Inl e \<Rightarrow> Inl e
      | Inr speed \<Rightarrow>
          (case truediv
                  ((Running_CALORIES_MEAN_SPEED_MULTIPLIER * speed
                    + Running_CALORIES_MEAN_SPEED_SHIFT) * w) M_IN_KM of
             Inl e \<Rightarrow> Inl e
           | Inr q \<Rightarrow> Inr (Number (q * (d * MIN_IN_H)))))"
| "get_spent_calories (SportsWalking a d w h) =
     (case get_mean_speed (SportsWalking a d w h) of
        Inl e \<Rightarrow> Inl e
      | Inr speed \<Rightarrow>
          (case truediv h CM_IN_M of
             Inl e \<Rightarrow> Inl e
           | Inr metres \<Rightarrow>
               (case truediv ((speed * KMH_IN_MSEC)\<^sup>2) metres of
                  Inl e \<Rightarrow> Inl e
                | Inr q \<Rightarrow>
                    Inr (Number
                      ((CALORIES_WEIGHT_MULTIPLIER * w
                        + q * CALORIES_SPEED_HEIGHT_MULTIPLIER * w)
                       * (d * MIN_IN_H))))))"
| "get_spent_calories (Swimming a d w lp cp) =
     (case get_mean_speed (Swimming a d w lp cp) of
        Inl e \<Rightarrow> Inl e
      | Inr speed \<Rightarrow>
          Inr (Number
            ((speed + Swimming_CALORIES_MEAN_SPEED_SHIFT)
             * Swimming_CALORIES_MEAN_SPEED_MULTIPLIER * w * d)))"

section \<open>The information message\<close>

text \<open>
  Strings are kept as the bytes of their UTF-8 encoding, which is what printing them
  writes; the fixed pieces of the Cyrillic texts are therefore byte lists, with a
  transliteration beside each.

  The dataclass \<^verbatim>\<open>InfoMessage\<close> has the fields \<^verbatim>\<open>training_type\<close>, \<^verbatim>\<open>duration\<close>,
  \<^verbatim>\<open>distance\<close>, \<^verbatim>\<open>speed\<close>, \<^verbatim>\<open>calories\<close>, given to the constructor in this order.
  The last one holds what \<^verbatim>\<open>get_spent_calories\<close> returned.
\<close>

datatype info_message = InfoMessage string num num num py_value

definition MESSAGE_training_type :: string where
  \<comment> \<open>``Tip trenirovki: '' (training type), before \<^verbatim>\<open>{training_type}\<close>\<close>
  "MESSAGE_training_type =
     [CHR 0xD0, CHR 0xA2, CHR 0xD0, CHR 0xB8, CHR 0xD0, CHR 0xBF] @
     '' '' @
     [CHR 0xD1, CHR 0x82, CHR 0xD1, CHR 0x80, CHR 0xD0, CHR 0xB5, CHR 0xD0, CHR 0xBD,
      CHR 0xD0, CHR 0xB8, CHR 0xD1, CHR 0x80, CHR 0xD0, CHR 0xBE, CHR 0xD0,
      CHR 0xB2, CHR 0xD0, CHR 0xBA, CHR 0xD0, CHR 0xB8] @
     '': ''"

definition MESSAGE_duration :: string where
  \<comment> \<open>``; Dlitel'nost': '' (duration), before \<^verbatim>\<open>{duration:.3f}\<close>\<close>
  "MESSAGE_duration =
     ''; '' @
     [CHR 0xD0, CHR 0x94, CHR 0xD0, CHR 0xBB, CHR 0xD0, CHR 0xB8, CHR 0xD1, CHR 0x82,
      CHR 0xD0, CHR 0xB5, CHR 0xD0, CHR 0xBB, CHR 0xD1, CHR 0x8C, CHR 0xD0,
      CHR 0xBD, CHR 0xD0, CHR 0xBE, CHR 0xD1, CHR 0x81, CHR 0xD1, CHR 0x82,
      CHR 0xD1, CHR 0x8C] @
     '': ''"

definition MESSAGE_distance :: string where
  \<comment> \<open>`` ch.; Distantsiya: '' (hours; distance), before \<^verbatim>\<open>{distance:.3f}\<close>\<close>
  "MESSAGE_distance =
     '' '' @
     [CHR 0xD1, CHR 0x87] @
     ''.; '' @
     [CHR 0xD0, CHR 0x94, CHR 0xD0, CHR 0xB8, CHR 0xD1, CHR 0x81, CHR 0xD1, CHR 0x82,
      CHR 0xD0, CHR 0xB0, CHR 0xD0, CHR 0xBD, CHR 0xD1, CHR 0x86, CHR 0xD0,
      CHR 0xB8, CHR 0xD1, CHR 0x8F] @
     '': ''"

definition MESSAGE_speed :: string where
  \<comment> \<open>`` km; Sr. skorost': '' (km; mean speed), before \<^verbatim>\<open>{speed:.3f}\<close>\<close>
  "MESSAGE_speed =
     '' '' @
     [CHR 0xD0, CHR 0xBA, CHR 0xD0, CHR 0xBC] @
     ''; '' @
     [CHR 0xD0, CHR 0xA1, CHR 0xD1, CHR 0x80] @
     ''. '' @
     [CHR 0xD1, CHR 0x81, CHR 0xD0, CHR 0xBA, CHR 0xD0, CHR 0xBE, CHR 0xD1, CHR 0x80,
      CHR 0xD0, CHR 0xBE, CHR 0xD1, CHR 0x81, CHR 0xD1, CHR 0x82, CHR 0xD1,
      CHR 0x8C] @
     '': ''"

definition MESSAGE_calories :: string where
  \<comment> \<open>`` km/ch; Potracheno kkal: '' (km/h; kcal spent), before \<^verbatim>\<open>{calories:.3f}\<close>\<close>
  "MESSAGE_calories =
     '' '' @
     [CHR 0xD0, CHR 0xBA, CHR 0xD0, CHR 0xBC] @
     ''/'' @
     [CHR 0xD1, CHR 0x87] @
     ''; '' @
     [CHR 0xD0, CHR 0x9F, CHR 0xD0, CHR 0xBE, CHR 0xD1, CHR 0x82, CHR 0xD1, CHR 0x80,
      CHR 0xD0, CHR 0xB0, CHR 0xD1, CHR 0x87, CHR 0xD0, CHR 0xB5, CHR 0xD0,
      CHR 0xBD, CHR 0xD0, CHR 0xBE] @
     '' '' @
     [CHR 0xD0, CHR 0xBA, CHR 0xD0, CHR 0xBA, CHR 0xD0, CHR 0xB0, CHR 0xD0, CHR 0xBB] @
     '': ''"

definition MESSAGE_end :: string where
  \<comment> \<open>the closing full stop\<close>
  "MESSAGE_end =
     ''.''"

text \<open>
  The replacement field \<^verbatim>\<open>{x:.3f}\<close> formats a number in fixed-point notation with
  three digits after the point: a minus sign for a negative number, then the decimal
  expansion of the absolute value rounded to a multiple of 1/1000, a tie going to the
  even neighbour.
\<close>

definition round_half_even :: "num \<Rightarrow> int" where
  "round_half_even y =
     (let f = \<lfloor>y\<rfloor>; r = y - of_int f
      in if r < 1 / 2 then f
         else if 1 / 2 < r then f + 1
         else if even f then f else f + 1)"

definition digit_char :: "nat \<Rightarrow> char" where
  "digit_char k = ''0123456789'' ! k"

fun decimal :: "nat \<Rightarrow> string" where
  "decimal n =
     (if n < 10 then [digit_char n]
      else decimal (n div 10) @ [digit_char (n mod 10)])"

declare decimal.simps [simp del]

definition format_3f :: "num \<Rightarrow> string" where
  "format_3f x =
     (let n = nat (round_half_even (\<bar>x\<bar> * 1000))
      in (if x < 0 then ''-'' else [])
         @ decimal (n div 1000) @ ''.''
         @ [digit_char (n div 100 mod 10), digit_char (n div 10 mod 10),
            digit_char (n mod 10)])"

text \<open>
  The format specification \<^verbatim>\<open>.3f\<close> applied to a value: a class object does not
  accept it, and \<^verbatim>\<open>format\<close> raises \<^verbatim>\<open>TypeError\<close>.
\<close>

fun format_value_3f :: "py_value \<Rightarrow> py_error + string" where
  "format_value_3f (Number x) = Inr (format_3f x)"
| "format_value_3f NotImplementedError_class = Inl TypeError"

fun get_message :: "info_message \<Rightarrow> py_error + string" where
  "get_message (InfoMessage training_type dur distance speed calories) =
     (case format_value_3f calories of
        Inl e \<Rightarrow> Inl e
      | Inr cal \<Rightarrow>
          Inr (MESSAGE_training_type @ training_type
               @ MESSAGE_duration @ format_3f dur
               @ MESSAGE_distance @ format_3f distance
               @ MESSAGE_speed @ format_3f speed
               @ MESSAGE_calories @ cal
               @ MESSAGE_end))"

text \<open>The name of the object's class, \<^verbatim>\<open>self.__class__.__name__\<close>.\<close>

fun class_name :: "training \<Rightarrow> string" where
  "class_name (Training a d w) = ''Training''"
| "class_name (Running a d w) = ''Running''"
| "class_name (SportsWalking a d w h) = ''SportsWalking''"
| "class_name (Swimming a d w lp cp) = ''Swimming''"

definition show_training_info :: "training \<Rightarrow> py_error + info_message" where
  "show_training_info self =
     (case get_distance self of
        Inl e \<Rightarrow> Inl e
      | Inr distance \<Rightarrow>
          (case get_mean_speed self of
             Inl e \<Rightarrow> Inl e
           | Inr speed \<Rightarrow>
               (case get_spent_calories self of
                  Inl e \<Rightarrow> Inl e
                | Inr calories \<Rightarrow>
                    Inr (InfoMessage (class_name self) (duration self) distance speed calories))))"

section \<open>Reading a package\<close>

text \<open>
  \<^verbatim>\<open>cls(*data)\<close> calls the generated constructor with the elements of \<^verbatim>\<open>data\<close> as
  positional arguments; with too few or too many of them the call raises
  \<^verbatim>\<open>TypeError\<close>.
\<close>

definition new_Swimming :: "num list \<Rightarrow> py_error + training" where
  "new_Swimming data =
     (case data of
        [a, d, w, lp, cp] \<Rightarrow> Inr (Swimming a d w lp cp)
      | _ \<Rightarrow> Inl TypeError)"

definition new_Running :: "num list \<Rightarrow> py_error + training" where
  "new_Running data =
     (case data of
        [a, d, w] \<Rightarrow> Inr (Running a d w)
      | _ \<Rightarrow> Inl TypeError)"

definition new_SportsWalking :: "num list \<Rightarrow> py_error + training" where
  "new_SportsWalking data =
     (case data of
        [a, d, w, h] \<Rightarrow> Inr (SportsWalking a d w h)
      | _ \<Rightarrow> Inl TypeError)"

text \<open>
  The dictionary of \<^verbatim>\<open>read_package\<close>, as an association list: \<^verbatim>\<open>keys()\<close> yields the
  keys in insertion order.
\<close>

definition workout_type_class :: "(string \<times> (num list \<Rightarrow> py_error + training)) list" where
  "workout_type_class =
     [(''SWM'', new_Swimming), (''RUN'', new_Running), (''WLK'', new_SportsWalking)]"

definition unsupported_workout_message :: string where
  \<comment> \<open>``Takuyu trenirovku my ne podgotovili.Vot spisok dostupnykh trenirovok: '',
      the two adjacent literals of the source joined as they are\<close>
  "unsupported_workout_message =
     [CHR 0xD0, CHR 0xA2, CHR 0xD0, CHR 0xB0, CHR 0xD0, CHR 0xBA, CHR 0xD1, CHR 0x83,
      CHR 0xD1, CHR 0x8E] @
     '' '' @
     [CHR 0xD1, CHR 0x82, CHR 0xD1, CHR 0x80, CHR 0xD0, CHR 0xB5, CHR 0xD0, CHR 0xBD,
      CHR 0xD0, CHR 0xB8, CHR 0xD1, CHR 0x80, CHR 0xD0, CHR 0xBE, CHR 0xD0,
      CHR 0xB2, CHR 0xD0, CHR 0xBA, CHR 0xD1, CHR 0x83] @
     '' '' @
     [CHR 0xD0, CHR 0xBC, CHR 0xD1, CHR 0x8B] @
     '' '' @
     [CHR 0xD0, CHR 0xBD, CHR 0xD0, CHR 0xB5] @
     '' '' @
     [CHR 0xD0, CHR 0xBF, CHR 0xD0, CHR 0xBE, CHR 0xD0, CHR 0xB4, CHR 0xD0, CHR 0xB3,
      CHR 0xD0, CHR 0xBE, CHR 0xD1, CHR 0x82, CHR 0xD0, CHR 0xBE, CHR 0xD0,
      CHR 0xB2, CHR 0xD0, CHR 0xB8, CHR 0xD0, CHR 0xBB, CHR 0xD0, CHR 0xB8] @
     ''.'' @
     [CHR 0xD0, CHR 0x92, CHR 0xD0, CHR 0xBE, CHR 0xD1, CHR 0x82] @
     '' '' @
     [CHR 0xD1, CHR 0x81, CHR 0xD0, CHR 0xBF, CHR 0xD0, CHR 0xB8, CHR 0xD1, CHR 0x81,
      CHR 0xD0, CHR 0xBE, CHR 0xD0, CHR 0xBA] @
     '' '' @
     [CHR 0xD0, CHR 0xB4, CHR 0xD0, CHR 0xBE, CHR 0xD1, CHR 0x81, CHR 0xD1, CHR 0x82,
      CHR 0xD1, CHR 0x83, CHR 0xD0, CHR 0xBF, CHR 0xD0, CHR 0xBD, CHR 0xD1,
      CHR 0x8B, CHR 0xD1, CHR 0x85] @
     '' '' @
     [CHR 0xD1, CHR 0x82, CHR 0xD1, CHR 0x80, CHR 0xD0, CHR 0xB5, CHR 0xD0, CHR 0xBD,
      CHR 0xD0, CHR 0xB8, CHR 0xD1, CHR 0x80, CHR 0xD0, CHR 0xBE, CHR 0xD0,
      CHR 0xB2, CHR 0xD0, CHR 0xBE, CHR 0xD0, CHR 0xBA] @
     '': ''"

text \<open>
  For an unknown code, \<^verbatim>\<open>ValueError\<close> is raised with the text and then each key of
  the dictionary as its arguments.
\<close>

definition read_package :: "string \<Rightarrow> num list \<Rightarrow> py_error + training" where
  "read_package workout_type data =
     (case map_of workout_type_class workout_type of
        Some cls \<Rightarrow> cls data
      | None \<Rightarrow> Inl (ValueError (unsupported_workout_message # map fst workout_type_class)))"

text \<open>\<^verbatim>\<open>main\<close> prints the message of the training; the model returns the printed line.\<close>

definition main :: "training \<Rightarrow> py_error + string" where
  "main training =
     (case show_training_info training of
        Inl e \<Rightarrow> Inl e
      | Inr info \<Rightarrow> get_message info)"



section \<open>Properties of distance, speed and calories\<close>












text \<open>
  C1. Calling \<^verbatim>\<open>get_spent_calories\<close> on the base class is meant to signal ``not
  implemented''. The base method returns the class \<^verbatim>\<open>NotImplementedError\<close> as its
  result: the call completes with a value and nothing is raised. The value then travels
  into the message as its calories, and the failure only shows when the message is
  formatted, as a \<^verbatim>\<open>TypeError\<close>.
\<close>

theorem base_get_spent_calories_returns_class:
  "get_spent_calories (Training 720 1 80) = Inr NotImplementedError_class \<and>
   show_training_info (Training 720 1 80) =
     Inr (InfoMessage ''Training'' 1 (720 * 0.65 / 1000) (720 * 0.65 / 1000 / 1)
            NotImplementedError_class) \<and>
   main (Training 720 1 80) = Inl TypeError"
  by (simp add: main_def show_training_info_def get_distance_def truediv_def M_IN_KM_def)

section \<open>Properties of reading a package\<close>

lemma list_of_length_3:
  assumes "length xs = 3"
  obtains a b c where "xs = [a, b, c]"
  using assms by (auto simp: length_Suc_conv eval_nat_numeral)

lemma list_of_length_4:
  assumes "length xs = 4"
  obtains a b c d where "xs = [a, b, c, d]"
  using assms by (auto simp: length_Suc_conv eval_nat_numeral)

lemma list_of_length_5:
  assumes "length xs = 5"
  obtains a b c d e where "xs = [a, b, c, d, e]"
  using assms by (auto simp: length_Suc_conv eval_nat_numeral)

text \<open>
  C2. For every workout-type code other than SWM, RUN and WLK, and every data sequence,
  \<^verbatim>\<open>read_package\<close> fails with a \<^verbatim>\<open>ValueError\<close>, and what the error carries after its
  text is exactly the three valid codes SWM, RUN, WLK.
\<close>

theorem read_package_unknown_code:
  assumes "workout_type \<notin> {''SWM'', ''RUN'', ''WLK''}"
  shows "read_package workout_type data =
           Inl (ValueError [unsupported_workout_message, ''SWM'', ''RUN'', ''WLK''])"
  using assms by (simp add: read_package_def workout_type_class_def)

theorem read_package_unknown_code_witness:
  "''SWIM'' \<notin> {''SWM'', ''RUN'', ''WLK''} \<and>
   read_package ''SWIM'' [720, 1, 80, 25, 40] =
     Inl (ValueError [unsupported_workout_message, ''SWM'', ''RUN'', ''WLK''])"
proof -
  have unknown: "''SWIM'' \<notin> {''SWM'', ''RUN'', ''WLK''}" by simp
  from read_package_unknown_code [OF unknown, of "[720, 1, 80, 25, 40]"] unknown
  show ?thesis by blast
qed

text \<open>
  C3. For a valid pair of code and data (SWM with five fields, RUN with three, WLK with
  four) \<^verbatim>\<open>read_package\<close> returns an instance of the corresponding class (Swimming,
  Running, SportsWalking), and the fields of the instance, read in declaration order,
  are the data.
\<close>

theorem read_package_valid:
  assumes "length swm = 5" and "length run = 3" and "length wlk = 4"
  shows "(\<exists>t. read_package ''SWM'' swm = Inr t \<and> class_name t = ''Swimming'' \<and>
            [action t, duration t, weight t, length_pool t, count_pool t] = swm) \<and>
         (\<exists>t. read_package ''RUN'' run = Inr t \<and> class_name t = ''Running'' \<and>
            [action t, duration t, weight t] = run) \<and>
         (\<exists>t. read_package ''WLK'' wlk = Inr t \<and> class_name t = ''SportsWalking'' \<and>
            [action t, duration t, weight t, height t] = wlk)"
proof -
  from assms(1) obtain a d w lp cp where swm: "swm = [a, d, w, lp, cp]"
    by (rule list_of_length_5)
  from assms(2) obtain a' d' w' where run: "run = [a', d', w']"
    by (rule list_of_length_3)
  from assms(3) obtain a'' d'' w'' h where wlk: "wlk = [a'', d'', w'', h]"
    by (rule list_of_length_4)
  have "read_package ''SWM'' swm = Inr (Swimming a d w lp cp)"
    by (simp add: swm read_package_def workout_type_class_def new_Swimming_def)
  moreover have "read_package ''RUN'' run = Inr (Running a' d' w')"
    by (simp add: run read_package_def workout_type_class_def new_Running_def)
  moreover have "read_package ''WLK'' wlk = Inr (SportsWalking a'' d'' w'' h)"
    by (simp add: wlk read_package_def workout_type_class_def new_SportsWalking_def)
  ultimately show ?thesis
    by (simp add: swm run wlk)
qed

theorem read_package_valid_witness:
  "length [720, 1, 80, 25, 40 :: num] = 5 \<and> length [15000, 1, 75 :: num] = 3 \<and>
   length [9000, 1, 75, 180 :: num] = 4 \<and>
   (\<exists>t. read_package ''SWM'' [720, 1, 80, 25, 40] = Inr t \<and> class_name t = ''Swimming'' \<and>
      [action t, duration t, weight t, length_pool t, count_pool t] = [720, 1, 80, 25, 40]) \<and>
   (\<exists>t. read_package ''RUN'' [15000, 1, 75] = Inr t \<and> class_name t = ''Running'' \<and>
      [action t, duration t, weight t] = [15000, 1, 75]) \<and>
   (\<exists>t. read_package ''WLK'' [9000, 1, 75, 180] = Inr t \<and> class_name t = ''SportsWalking'' \<and>
      [action t, duration t, weight t, height t] = [9000, 1, 75, 180])"
proof -
  have l5: "length [720, 1, 80, 25, 40 :: num] = 5"
    and l3: "length [15000, 1, 75 :: num] = 3"
    and l4: "length [9000, 1, 75, 180 :: num] = 4" by simp_all
  from read_package_valid [OF l5 l3 l4] l5 l3 l4
  show ?thesis by blast
qed

section \<open>Properties of the rendered message\<close>









end
